theory Spec2Isabelle
  imports Complex_Main "HOL-Library.Sublist"
begin

section \<open>The JavaScript runtime the dashboard relies on\<close>

text \<open>
  Strings are lists of code units; the model covers the code units below 256 (Latin-1),
  one \<^typ>\<open>char\<close> each. A JavaScript number that may be \<open>NaN\<close> is an option:
  \<open>None\<close> is \<open>NaN\<close>, and every comparison with \<open>NaN\<close> is false.
\<close>

subsection \<open>Strings\<close>

text \<open>White space and line terminators of ECMAScript, among the code units below 256:
  TAB, LF, VT, FF, CR, SP and NBSP.\<close>

definition isWhiteSpace :: "char \<Rightarrow> bool" where
  "isWhiteSpace c = ((of_char c :: nat) \<in> {9, 10, 11, 12, 13, 32, 160})"

text \<open>\<^verbatim>\<open>String.prototype.trim\<close>: white space is removed at both ends.\<close>

definition trim :: "string \<Rightarrow> string" where
  "trim s = rev (dropWhile isWhiteSpace (rev (dropWhile isWhiteSpace s)))"

text \<open>\<^verbatim>\<open>String.prototype.toLowerCase\<close> on one code unit: \<open>A\<close>..\<open>Z\<close> and the
  Latin-1 capitals U+00C0..U+00DE (without the multiplication sign U+00D7) move up by 32.\<close>

definition lowerChar :: "char \<Rightarrow> char" where
  "lowerChar c =
     (let n = (of_char c :: nat)
      in if (65 \<le> n \<and> n \<le> 90) \<or> (192 \<le> n \<and> n \<le> 222 \<and> n \<noteq> 215)
         then char_of (n + 32) else c)"

definition toLowerCase :: "string \<Rightarrow> string" where
  "toLowerCase s = map lowerChar s"

text \<open>\<^verbatim>\<open>s.includes(t)\<close>: \<open>t\<close> occurs in \<open>s\<close> as a contiguous run of code units.\<close>

fun includes_str :: "string \<Rightarrow> string \<Rightarrow> bool" where
  "includes_str [] t = (t = [])"
| "includes_str (c # cs) t = (prefix t (c # cs) \<or> includes_str cs t)"

subsection \<open>parseInt\<close>

text \<open>The value of a code unit as a digit: \<open>0\<close>..\<open>9\<close>, then the letters of either case
  for 10..35.\<close>

definition digitValue :: "char \<Rightarrow> nat option" where
  "digitValue c =
     (let n = (of_char c :: nat)
      in if 48 \<le> n \<and> n \<le> 57 then Some (n - 48)
         else if 97 \<le> n \<and> n \<le> 122 then Some (n - 87)
         else if 65 \<le> n \<and> n \<le> 90 then Some (n - 55)
         else None)"

definition radixDigit :: "nat \<Rightarrow> char \<Rightarrow> nat option" where
  "radixDigit R c =
     (case digitValue c of None \<Rightarrow> None | Some d \<Rightarrow> if d < R then Some d else None)"

text \<open>The value of the longest prefix of radix-\<open>R\<close> digits, most significant first.\<close>

fun digitsValue :: "nat \<Rightarrow> nat \<Rightarrow> string \<Rightarrow> nat" where
  "digitsValue R acc [] = acc"
| "digitsValue R acc (c # cs) =
     (case radixDigit R c of None \<Rightarrow> acc | Some d \<Rightarrow> digitsValue R (acc * R + d) cs)"

definition startsWithDigit :: "nat \<Rightarrow> string \<Rightarrow> bool" where
  "startsWithDigit R s = (case s of [] \<Rightarrow> False | c # _ \<Rightarrow> radixDigit R c \<noteq> None)"

text \<open>
  \<^verbatim>\<open>parseInt(string, radix)\<close> as ECMAScript defines it; radix \<open>0\<close> stands for an
  absent radix. Leading white space is skipped, one sign is read, a radix outside 2..36
  gives \<open>NaN\<close>, the prefix \<open>0x\<close> or \<open>0X\<close> selects radix 16 when the radix is absent or
  16, and the longest run of digits is read; no digit gives \<open>NaN\<close>. The result here is
  the mathematical integer that was read. The number the engine returns is a double:
  the integer itself up to \<open>2 ^ 53\<close>, an approximation beyond (\<open>toNumber\<close> below);
  the approximation keeps the order with the small constants the buckets compare with.
\<close>

definition parseInt :: "string \<Rightarrow> nat \<Rightarrow> int option" where
  "parseInt string radix =
     (let S = dropWhile isWhiteSpace string;
          sign = (case S of [] \<Rightarrow> 1 | c # _ \<Rightarrow> if c = CHR ''-'' then - 1 else (1 :: int));
          S1 = (case S of [] \<Rightarrow> S
                | c # cs \<Rightarrow> if c = CHR ''+'' \<or> c = CHR ''-'' then cs else S);
          stripPrefix = (radix = 0 \<or> radix = 16);
          R = (if radix = 0 then 10 else radix);
          hex = (stripPrefix \<and> (take 2 S1 = ''0x'' \<or> take 2 S1 = ''0X''));
          S2 = (if hex then drop 2 S1 else S1);
          R2 = (if hex then 16 else R)
      in if radix \<noteq> 0 \<and> (radix < 2 \<or> 36 < radix) then None
         else if \<not> startsWithDigit R2 S2 then None
         else Some (sign * int (digitsValue R2 0 S2)))"

text \<open>Comparisons of a number that may be \<open>NaN\<close> with a constant.\<close>

definition num_ge :: "int option \<Rightarrow> int \<Rightarrow> bool" where
  "num_ge x k = (case x of None \<Rightarrow> False | Some n \<Rightarrow> k \<le> n)"

definition num_le :: "int option \<Rightarrow> int \<Rightarrow> bool" where
  "num_le x k = (case x of None \<Rightarrow> False | Some n \<Rightarrow> n \<le> k)"

definition num_gt :: "int option \<Rightarrow> int \<Rightarrow> bool" where
  "num_gt x k = (case x of None \<Rightarrow> False | Some n \<Rightarrow> k < n)"

text \<open>The remainder operator \<^verbatim>\<open>%\<close> on integers: the result has the sign of the
  dividend.\<close>

definition jsRem :: "int \<Rightarrow> int \<Rightarrow> int" where
  "jsRem a b = sgn a * (\<bar>a\<bar> mod \<bar>b\<bar>)"

subsection \<open>Dates\<close>

text \<open>
  A \<^verbatim>\<open>Date\<close> holds a time value, milliseconds since the epoch in UTC, or is
  invalid (\<open>NaN\<close>); \<open>TimeClip\<close> makes a time value beyond the range of dates
  invalid.
\<close>

datatype Date = TimeValue int | InvalidDate

definition msPerDay :: int where
  "msPerDay = 86400000"

definition TimeClip :: "int \<Rightarrow> Date" where
  "TimeClip t = (if \<bar>t\<bar> > 8640000000000000 then InvalidDate else TimeValue t)"

subsection \<open>The host\<close>

text \<open>
  What the dashboard takes from the engine and the machine it runs on:
  \<^item> the offset of local time from UTC, in milliseconds, at a time value
    (\<open>LocalTZA(t, true)\<close> of ECMAScript) and at a local time value
    (\<open>LocalTZA(t, false)\<close>); the two differ around a daylight-saving change;
  \<^item> the date parser behind \<^verbatim>\<open>new Date(string)\<close>;
  \<^item> the double the engine's \<^verbatim>\<open>parseInt\<close> returns for the digits of an integer
    above \<open>2 ^ 53\<close>, as its integer value, or nothing when it is \<open>Infinity\<close>:
    ECMAScript leaves this approximation to the engine for radix 36.
\<close>

record Host =
  offsetAtUTC :: "int \<Rightarrow> int"
  offsetAtLocal :: "int \<Rightarrow> int"
  parseDate :: "string \<Rightarrow> Date"
  bigInteger :: "nat \<Rightarrow> nat option"

definition LocalTime :: "Host \<Rightarrow> int \<Rightarrow> int" where
  "LocalTime host t = t + offsetAtUTC host t"

definition UTC :: "Host \<Rightarrow> int \<Rightarrow> int" where
  "UTC host t = t - offsetAtLocal host t"

definition Day :: "int \<Rightarrow> int" where
  "Day t = t div msPerDay"

definition TimeWithinDay :: "int \<Rightarrow> int" where
  "TimeWithinDay t = t mod msPerDay"

definition MakeDate :: "int \<Rightarrow> int \<Rightarrow> int" where
  "MakeDate day time = day * msPerDay + time"

text \<open>
  \<^verbatim>\<open>d.setDate(d.getDate() + 1)\<close>, by the steps of \<^verbatim>\<open>Date.prototype.setDate\<close>:
  the time value is taken to local time, the day of the month is replaced, and the result
  is taken back to UTC and clipped. \<open>MakeDay\<close> of the year and month of \<open>t\<close> and of
  its day of the month plus one is the day after \<open>Day t\<close> (a day past the end of the
  month runs into the next month), so the new local time is the same time of day on the
  next local calendar day.
\<close>

definition addOneDay :: "Host \<Rightarrow> Date \<Rightarrow> Date" where
  "addOneDay host d =
     (case d of
        InvalidDate \<Rightarrow> InvalidDate
      | TimeValue tv \<Rightarrow>
          (let t = LocalTime host tv;
               newDate = MakeDate (Day t + 1) (TimeWithinDay t)
           in TimeClip (UTC host newDate)))"


text \<open>The number \<^verbatim>\<open>parseInt\<close> returns for the integer it read: the integer itself
  up to \<open>2 ^ 53\<close> in size, beyond that the engine's double for its digits with the sign
  put back, and \<open>None\<close> for an infinity, whose remainder is \<open>NaN\<close>.\<close>

definition toNumber :: "Host \<Rightarrow> int \<Rightarrow> int option" where
  "toNumber host n =
     (if \<bar>n\<bar> \<le> 2 ^ 53 then Some n
      else map_option (\<lambda>m. sgn n * int m) (bigInteger host (nat \<bar>n\<bar>)))"

text \<open>\<^verbatim>\<open>a < b\<close> and \<^verbatim>\<open>a > b\<close> on dates compare the time values; with an invalid
  date both are false.\<close>

definition date_less :: "Date \<Rightarrow> Date \<Rightarrow> bool" where
  "date_less a b =
     (case a of InvalidDate \<Rightarrow> False
      | TimeValue x \<Rightarrow> (case b of InvalidDate \<Rightarrow> False | TimeValue y \<Rightarrow> x < y))"

definition date_greater :: "Date \<Rightarrow> Date \<Rightarrow> bool" where
  "date_greater a b = date_less b a"

text \<open>
  The time value of a calendar instant in UTC, as \<^verbatim>\<open>Date.UTC\<close> computes it (the month
  counted from 1): the days from the epoch to a date of the Gregorian calendar, then the
  milliseconds.
\<close>

definition daysFromCivil :: "int \<Rightarrow> int \<Rightarrow> int \<Rightarrow> int" where
  "daysFromCivil y m d =
     (let y' = (if m \<le> 2 then y - 1 else y);
          era = y' div 400;
          yoe = y' - era * 400;
          doy = (153 * (if m > 2 then m - 3 else m + 9) + 2) div 5 + d - 1;
          doe = yoe * 365 + yoe div 4 - yoe div 100 + doy
      in era * 146097 + doe - 719468)"

definition utcTime :: "int \<Rightarrow> int \<Rightarrow> int \<Rightarrow> int \<Rightarrow> int \<Rightarrow> int" where
  "utcTime y m d hh mm = daysFromCivil y m d * msPerDay + hh * 3600000 + mm * 60000"

text \<open>
  A reader of the one form the examples of the specification use,
  \<^verbatim>\<open>YYYY-MM-DD HH:mm\<close>, as the time value of that instant in UTC; every other
  string is an invalid date for it. The sample hosts below parse with it; the filter
  itself takes the parser from its host.
\<close>

definition decimalValue :: "string \<Rightarrow> int option" where
  "decimalValue s =
     (if s \<noteq> [] \<and> list_all (\<lambda>c. radixDigit 10 c \<noteq> None) s
      then Some (int (digitsValue 10 0 s)) else None)"

definition parseDateTime :: "string \<Rightarrow> Date" where
  "parseDateTime s =
     (case decimalValue (take 4 s) of None \<Rightarrow> InvalidDate | Some y \<Rightarrow>
      (case decimalValue (take 2 (drop 5 s)) of None \<Rightarrow> InvalidDate | Some m \<Rightarrow>
      (case decimalValue (take 2 (drop 8 s)) of None \<Rightarrow> InvalidDate | Some d \<Rightarrow>
      (case decimalValue (take 2 (drop 11 s)) of None \<Rightarrow> InvalidDate | Some hh \<Rightarrow>
      (case decimalValue (take 2 (drop 14 s)) of None \<Rightarrow> InvalidDate | Some mm \<Rightarrow>
         if length s = 16 \<and> take 1 (drop 4 s) = ''-'' \<and> take 1 (drop 7 s) = ''-'' \<and>
            take 1 (drop 10 s) = '' '' \<and> take 1 (drop 13 s) = '':'' \<and>
            1 \<le> m \<and> m \<le> 12 \<and> 1 \<le> d \<and> d \<le> 31 \<and> hh \<le> 23 \<and> mm \<le> 59
         then TimeClip (utcTime y m d hh mm) else InvalidDate)))))"


section \<open>The data model of the dashboard\<close>

record CandidateDetails =
  full_name :: string
  email :: string
  experience :: "string option"

record Video =
  video_id :: string
  title :: string
  candidate_details :: "CandidateDetails option"
  created_at :: "string option"

record DateRange =
  range_start :: "Date option"
  range_end :: "Date option"

record FilterOptions =
  experienceLevel :: "string list"
  searchQuery :: string
  ratingMin :: real
  dateRange :: DateRange

section \<open>The filter engine\<close>

definition matchesSearchQuery :: "Video \<Rightarrow> string \<Rightarrow> bool" where
  "matchesSearchQuery video query =
     (let lowerCaseQuery = toLowerCase query
      in if includes_str (toLowerCase (title video)) lowerCaseQuery then True
         else (case candidate_details video of
                 None \<Rightarrow> False
               | Some candidate \<Rightarrow>
                   includes_str (toLowerCase (full_name candidate)) lowerCaseQuery \<or>
                   includes_str (toLowerCase (email candidate)) lowerCaseQuery \<or>
                   (case experience candidate of
                      None \<Rightarrow> False
                    | Some e \<Rightarrow> includes_str (toLowerCase e) lowerCaseQuery)))"

text \<open>The callback of \<^verbatim>\<open>levels.some\<close>.\<close>

definition levelHolds :: "int option \<Rightarrow> string \<Rightarrow> bool" where
  "levelHolds expYears level =
     (if level = ''0-2'' then num_ge expYears 0 \<and> num_le expYears 2
      else if level = ''3-5'' then num_ge expYears 3 \<and> num_le expYears 5
      else if level = ''5+'' then num_gt expYears 5
      else False)"

text \<open>The experience of a record when it is present and not the empty string, which is
  what \<^verbatim>\<open>!video.candidate_details?.experience\<close> tests.\<close>

definition experienceOf :: "Video \<Rightarrow> string option" where
  "experienceOf video =
     (case candidate_details video of
        None \<Rightarrow> None
      | Some candidate \<Rightarrow>
          (case experience candidate of
             None \<Rightarrow> None
           | Some e \<Rightarrow> if e = [] then None else Some e))"

definition matchesExperienceLevel :: "Video \<Rightarrow> string list \<Rightarrow> bool" where
  "matchesExperienceLevel video levels =
     (case experienceOf video of
        None \<Rightarrow> False
      | Some e \<Rightarrow> list_ex (levelHolds (parseInt e 0)) levels)"

text \<open>The mock rating \<^verbatim>\<open>(parseInt(video.id, 36) % 20) / 4 + 3\<close>; \<open>None\<close> is \<open>NaN\<close>.
  The remainder is taken of the number \<^verbatim>\<open>parseInt\<close> returns, a double with an integer
  value; the remainder, the quarter and the sum are exact on doubles.\<close>

definition mockRating :: "Host \<Rightarrow> Video \<Rightarrow> real option" where
  "mockRating host video =
     (case parseInt (video_id video) 36 of
        None \<Rightarrow> None
      | Some n \<Rightarrow>
          (case toNumber host n of
             None \<Rightarrow> None
           | Some m \<Rightarrow> Some (real_of_int (jsRem m 20) / 4 + 3)))"

definition matchesRatingMin :: "Host \<Rightarrow> Video \<Rightarrow> real \<Rightarrow> bool" where
  "matchesRatingMin host video minRating =
     (case mockRating host video of None \<Rightarrow> False | Some r \<Rightarrow> minRating \<le> r)"

text \<open>
  \<^verbatim>\<open>new Date(video.created_at)\<close> parses a string with the host's date parser. A
  missing, null or empty \<^verbatim>\<open>created_at\<close> is falsy.
\<close>

definition matchesDateRange :: "Host \<Rightarrow> Video \<Rightarrow> DateRange \<Rightarrow> bool" where
  "matchesDateRange host video rng =
     (case created_at video of
        None \<Rightarrow> True
      | Some c \<Rightarrow>
          if c = [] then True
          else
            (let videoDate = parseDate host c
             in if (case range_start rng of
                      None \<Rightarrow> False
                    | Some s \<Rightarrow> date_less videoDate s) then False
                else (case range_end rng of
                        None \<Rightarrow> True
                      | Some e \<Rightarrow>
                          (let endPlusOneDay = addOneDay host e
                           in if date_greater videoDate endPlusOneDay then False else True))))"

text \<open>The initial value of the \<^verbatim>\<open>filters\<close> state.\<close>

definition defaultFilters :: FilterOptions where
  "defaultFilters =
     \<lparr>experienceLevel = [''all''], searchQuery = [], ratingMin = 0,
      dateRange = \<lparr>range_start = None, range_end = None\<rparr>\<rparr>"

text \<open>The callback of \<^verbatim>\<open>videos.filter\<close> in \<^verbatim>\<open>filteredVideos\<close>.\<close>

definition keepVideo :: "Host \<Rightarrow> FilterOptions \<Rightarrow> Video \<Rightarrow> bool" where
  "keepVideo host filters video =
     (if searchQuery filters \<noteq> [] \<and> \<not> matchesSearchQuery video (searchQuery filters)
      then False
      else if ''all'' \<notin> set (experienceLevel filters) \<and>
              \<not> matchesExperienceLevel video (experienceLevel filters)
      then False
      else if ratingMin filters > 0 \<and> \<not> matchesRatingMin host video (ratingMin filters)
      then False
      else if \<not> matchesDateRange host video (dateRange filters) then False
      else True)"

definition filteredVideos :: "Host \<Rightarrow> Video list \<Rightarrow> FilterOptions \<Rightarrow> Video list" where
  "filteredVideos host videos filters = filter (keepVideo host filters) videos"

section \<open>The aggregation module\<close>

text \<open>The two fields \<^verbatim>\<open>dynamicMetrics\<close> computes. The product with \<open>0.6\<close> is taken
  exactly; on doubles the rounded product has the same floor for every array length.\<close>

record Metrics =
  totalApplicants :: nat
  applicantsInProgress :: int

definition dynamicMetrics :: "Video list \<Rightarrow> Metrics" where
  "dynamicMetrics videos =
     \<lparr>totalApplicants = length videos,
      applicantsInProgress = \<lfloor>real (length videos) * 0.6\<rfloor>\<rparr>"

section \<open>The question list manager\<close>

record Question =
  question_id :: string
  question :: string
  order_index :: int
  interview_id :: string

text \<open>The component's state: the four \<^verbatim>\<open>useState\<close> cells.\<close>

record State =
  questions :: "Question list"
  newQuestion :: string
  loading :: bool
  error :: "string option"

subsection \<open>The external store\<close>

text \<open>
  The store is the hosted database behind the client library: the table \<^verbatim>\<open>interview\<close>
  (the columns the component writes) and the table \<^verbatim>\<open>interview_questions\<close>. Every
  request is answered with \<^verbatim>\<open>{ data, error }\<close>: either the data or an error message.
  Whether a request fails is the store's choice, given as its \<open>fault\<close>; a failed request
  changes nothing. The requests of one component run one after the other.
\<close>

record Interview =
  interview_row_id :: string
  recruiter_id :: string
  invite_code :: nat

record Store =
  interview :: "Interview list"
  interview_questions :: "Question list"

datatype 'a Response = Data 'a | Error string

text \<open>The remote calls a handler issues, in order.\<close>

datatype Call =
  SelectInterview string
| InsertInterview string nat
| InsertQuestion string string
| DeleteQuestion string

text \<open>\<^verbatim>\<open>from("interview").select("id").eq("recruiter_id", recruiterId).limit(1)\<close>\<close>

definition select_interview :: "string option \<Rightarrow> string \<Rightarrow> Store \<Rightarrow> string list Response" where
  "select_interview fault recruiterId store =
     (case fault of
        Some m \<Rightarrow> Error m
      | None \<Rightarrow>
          Data (take 1 (map interview_row_id
                  (filter (\<lambda>i. recruiter_id i = recruiterId) (interview store)))))"

text \<open>\<^verbatim>\<open>from("interview").insert(row).select().single()\<close>\<close>

definition insert_interview :: "string option \<Rightarrow> Interview \<Rightarrow> Store \<Rightarrow> Interview Response \<times> Store" where
  "insert_interview fault row store =
     (case fault of
        Some m \<Rightarrow> (Error m, store)
      | None \<Rightarrow> (Data row, store\<lparr>interview := interview store @ [row]\<rparr>))"

text \<open>\<^verbatim>\<open>from("interview_questions").insert([row]).select().single()\<close>\<close>

definition insert_question :: "string option \<Rightarrow> Question \<Rightarrow> Store \<Rightarrow> Question Response \<times> Store" where
  "insert_question fault row store =
     (case fault of
        Some m \<Rightarrow> (Error m, store)
      | None \<Rightarrow> (Data row, store\<lparr>interview_questions := interview_questions store @ [row]\<rparr>))"

text \<open>\<^verbatim>\<open>from("interview_questions").delete().eq("id", id)\<close>; the answer is the error, if
  any.\<close>

definition delete_question :: "string option \<Rightarrow> string \<Rightarrow> Store \<Rightarrow> string option \<times> Store" where
  "delete_question fault qid store =
     (case fault of
        Some m \<Rightarrow> (Some m, store)
      | None \<Rightarrow>
          (None, store\<lparr>interview_questions :=
                   filter (\<lambda>q. question_id q \<noteq> qid) (interview_questions store)\<rparr>))"

text \<open>What the store decides during one \<^verbatim>\<open>addQuestion\<close>: the fault of each request,
  the identifiers and the order index it gives to new rows, and the invite code drawn by
  \<^verbatim>\<open>Math.random\<close>.\<close>

record AddBackend =
  select_fault :: "string option"
  create_fault :: "string option"
  new_interview_id :: string
  random_invite_code :: nat
  question_fault :: "string option"
  new_question_id :: string
  new_order_index :: int

subsection \<open>The handlers\<close>

text \<open>The end of \<^verbatim>\<open>addQuestion\<close>, from the insert of the question on, which both
  branches of the interview lookup reach; \<open>st\<close> is the state after the first two
  updates, \<open>calls\<close> the calls issued so far.\<close>

definition attachQuestion ::
  "AddBackend \<Rightarrow> string \<Rightarrow> Store \<Rightarrow> State \<Rightarrow> Call list \<Rightarrow> Store \<times> State \<times> Call list" where
  "attachQuestion be interviewId store st calls =
     (let calls' = calls @ [InsertQuestion interviewId (newQuestion st)]
      in case insert_question (question_fault be)
                \<lparr>question_id = new_question_id be, question = newQuestion st,
                 order_index = new_order_index be, interview_id = interviewId\<rparr> store of
           (Error m, store') \<Rightarrow> (store', st\<lparr>error := Some m, loading := False\<rparr>, calls')
         | (Data questionData, store') \<Rightarrow>
             (store',
              st\<lparr>questions := questions st @ [questionData], newQuestion := [],
                 loading := False\<rparr>,
              calls'))"

definition addQuestion ::
  "AddBackend \<Rightarrow> string \<Rightarrow> Store \<times> State \<Rightarrow> Store \<times> State \<times> Call list" where
  "addQuestion be recruiterId w =
     (let store = fst w; st = snd w
      in if trim (newQuestion st) = [] then (store, st, [])
         else
           (let st1 = st\<lparr>loading := True, error := None\<rparr>;
                calls1 = [SelectInterview recruiterId]
            in case select_interview (select_fault be) recruiterId store of
                 Error m \<Rightarrow> (store, st1\<lparr>error := Some m, loading := False\<rparr>, calls1)
               | Data interviews \<Rightarrow>
                   (case interviews of
                      i # _ \<Rightarrow> attachQuestion be i store st1 calls1
                    | [] \<Rightarrow>
                        (let calls2 = calls1 @
                               [InsertInterview recruiterId (random_invite_code be)]
                         in case insert_interview (create_fault be)
                                   \<lparr>interview_row_id = new_interview_id be,
                                    recruiter_id = recruiterId,
                                    invite_code = random_invite_code be\<rparr> store of
                              (Error m, store') \<Rightarrow>
                                (store', st1\<lparr>error := Some m, loading := False\<rparr>, calls2)
                            | (Data newInterview, store') \<Rightarrow>
                                attachQuestion be (interview_row_id newInterview) store' st1
                                  calls2))))"

definition deleteQuestion ::
  "string option \<Rightarrow> string \<Rightarrow> Store \<times> State \<Rightarrow> Store \<times> State \<times> Call list" where
  "deleteQuestion fault qid w =
     (let store = fst w; st = snd w;
          st1 = st\<lparr>loading := True, error := None\<rparr>
      in case delete_question fault qid store of
           (Some m, store') \<Rightarrow>
             (store', st1\<lparr>error := Some m, loading := False\<rparr>, [DeleteQuestion qid])
         | (None, store') \<Rightarrow>
             (store',
              st1\<lparr>questions := filter (\<lambda>q. question_id q \<noteq> qid) (questions st1),
                  loading := False\<rparr>,
              [DeleteQuestion qid]))"

text \<open>Repeated adds: before each one the recruiter types a text into the input, and the
  store decides its answers; the calls of all the adds are collected in order.\<close>

fun addQuestions ::
  "string \<Rightarrow> (string \<times> AddBackend) list \<Rightarrow> Store \<times> State \<Rightarrow> Store \<times> State \<times> Call list" where
  "addQuestions recruiterId [] w = (fst w, snd w, [])"
| "addQuestions recruiterId (step # steps) w =
     (case addQuestion (snd step) recruiterId (fst w, (snd w)\<lparr>newQuestion := fst step\<rparr>) of
        (store', st', calls) \<Rightarrow>
          (case addQuestions recruiterId steps (store', st') of
             (store'', st'', calls') \<Rightarrow> (store'', st'', calls @ calls')))"

text \<open>The interviews of a recruiter in the store, and the calls that ask for a new
  interview.\<close>

definition interviewsOf :: "string \<Rightarrow> Store \<Rightarrow> Interview list" where
  "interviewsOf recruiterId store = filter (\<lambda>i. recruiter_id i = recruiterId) (interview store)"

fun isInsertInterview :: "Call \<Rightarrow> bool" where
  "isInsertInterview (InsertInterview r c) = True"
| "isInsertInterview other = False"

text \<open>The state of a freshly mounted component, as the \<^verbatim>\<open>useState\<close> calls
  initialise it.\<close>

definition initialState :: State where
  "initialState = \<lparr>questions = [], newQuestion = [], loading = False, error = None\<rparr>"

section \<open>Texts in capitals\<close>

text \<open>
  To say that the text match does not see case: a text with its letters \<open>a\<close>..\<open>z\<close>
  replaced by capitals, and a record with its title, full name, email and experience so
  written.
\<close>

definition asciiUpper :: "char \<Rightarrow> char" where
  "asciiUpper c =
     (let n = (of_char c :: nat)
      in if 97 \<le> n \<and> n \<le> 122 then char_of (n - 32) else c)"

definition capitals :: "string \<Rightarrow> string" where
  "capitals s = map asciiUpper s"

definition capitalsVideo :: "Video \<Rightarrow> Video" where
  "capitalsVideo video =
     video\<lparr>title := capitals (title video),
           candidate_details :=
             map_option
               (\<lambda>candidate.
                  candidate\<lparr>full_name := capitals (full_name candidate),
                            email := capitals (email candidate),
                            experience := map_option capitals (experience candidate)\<rparr>)
               (candidate_details video)\<rparr>"

section \<open>Sample data\<close>

text \<open>Records, a store and store answers for the concrete instances below.\<close>

definition sampleVideo :: "string \<Rightarrow> string option \<Rightarrow> string option \<Rightarrow> Video" where
  "sampleVideo i e c =
     \<lparr>video_id = i, title = ''Backend Engineer'',
      candidate_details =
        Some \<lparr>full_name = ''Ada Lovelace'', email = ''ada@example.org'', experience = e\<rparr>,
      created_at = c\<rparr>"

text \<open>
  A double for the digits of a large integer, rounded to the nearest with ties to even,
  as an engine that reads the digits exactly returns it; nothing from \<open>2 ^ 1024\<close> on.
\<close>

fun bitLength :: "nat \<Rightarrow> nat" where
  "bitLength n = (if n = 0 then 0 else Suc (bitLength (n div 2)))"

declare bitLength.simps [simp del]

definition nearestDouble :: "nat \<Rightarrow> nat option" where
  "nearestDouble m =
     (let e = bitLength m - 53;
          q = m div 2 ^ e;
          r = m mod 2 ^ e;
          q' = (if 2 * r > 2 ^ e \<or> (2 * r = 2 ^ e \<and> odd q) then q + 1 else q);
          v = q' * 2 ^ e
      in if v \<ge> 2 ^ 1024 then None else Some v)"

text \<open>A host with the given offsets; its parser reads \<^verbatim>\<open>YYYY-MM-DD HH:mm\<close> as local
  time.\<close>

definition hostAt :: "(int \<Rightarrow> int) \<Rightarrow> (int \<Rightarrow> int) \<Rightarrow> Host" where
  "hostAt atUTC atLocal =
     \<lparr>offsetAtUTC = atUTC, offsetAtLocal = atLocal,
      parseDate = (\<lambda>s. case parseDateTime s of
                          InvalidDate \<Rightarrow> InvalidDate
                        | TimeValue t \<Rightarrow> TimeClip (t - atLocal t)),
      bigInteger = nearestDouble\<rparr>"

definition utcHost :: Host where
  "utcHost = hostAt (\<lambda>t. 0) (\<lambda>t. 0)"


definition emptyStore :: Store where
  "emptyStore = \<lparr>interview = [], interview_questions = []\<rparr>"

definition sampleBackend :: "string \<Rightarrow> string \<Rightarrow> AddBackend" where
  "sampleBackend iid qid =
     \<lparr>select_fault = None, create_fault = None, new_interview_id = iid,
      random_invite_code = 123456789, question_fault = None, new_question_id = qid,
      new_order_index = 0\<rparr>"

section \<open>Facts about the runtime model\<close>

lemma includes_str_sublist: "includes_str s t = sublist t s"
  by (induction s) (auto simp: sublist_Cons_right)

lemma of_char_lt_256: "(of_char c :: nat) < 256"
  by (cases c) (simp)

lemma lowerChar_idem: "lowerChar (lowerChar c) = lowerChar c"
  unfolding lowerChar_def Let_def
  using of_char_lt_256[of c]
  by (auto simp: of_char_of)

lemma toLowerCase_idem: "toLowerCase (toLowerCase s) = toLowerCase s"
  by (simp add: toLowerCase_def lowerChar_idem)

lemma lowerChar_asciiUpper: "lowerChar (asciiUpper c) = lowerChar c"
  unfolding lowerChar_def asciiUpper_def Let_def
  using of_char_lt_256[of c]
  by (auto simp: of_char_of)

lemma toLowerCase_capitals: "toLowerCase (capitals s) = toLowerCase s"
  by (simp add: toLowerCase_def capitals_def lowerChar_asciiUpper)



section \<open>Filtering\<close>

text \<open>The callback keeps a record iff each of the four criteria lets it pass.\<close>

lemma keepVideo_iff:
  "keepVideo host filters video =
     ((searchQuery filters = [] \<or> matchesSearchQuery video (searchQuery filters)) \<and>
      (''all'' \<in> set (experienceLevel filters) \<or>
         matchesExperienceLevel video (experienceLevel filters)) \<and>
      (ratingMin filters \<le> 0 \<or> matchesRatingMin host video (ratingMin filters)) \<and>
      matchesDateRange host video (dateRange filters))"
  by (auto simp: keepVideo_def)

lemma matchesDateRange_open: "matchesDateRange host video \<lparr>range_start = None, range_end = None\<rparr>"
  by (simp add: matchesDateRange_def split: option.splits)

lemma keepVideo_default: "keepVideo host defaultFilters video"
  by (simp add: keepVideo_iff defaultFilters_def matchesDateRange_open)








lemma parseInt_examples:
  "parseInt ''2 years'' 0 = Some 2"
  "parseInt ''3'' 0 = Some 3"
  "parseInt '' 5 yrs'' 0 = Some 5"
  "parseInt ''6+ years'' 0 = Some 6"
  "parseInt ''senior'' 0 = None"
  "parseInt ''-j'' 36 = Some (- 19)"
  "parseInt ''_x'' 36 = None"
  "parseInt ''550e8400-e29b'' 36 = Some 402728625216"
  by (simp_all add: parseInt_def startsWithDigit_def radixDigit_def digitValue_def isWhiteSpace_def)

text \<open>
  Claim C5. Filtering is idempotent: for every collection and criteria, filtering the
  filtered list again with the same criteria gives the same list, hence the same set.
  With the default criteria (all experience levels, empty query, rating floor zero, open
  date range) the filter returns its input unchanged, in membership and order.
\<close>

theorem filteredVideos_idempotent_default_identity:
  "filteredVideos host (filteredVideos host videos filters) filters =
     filteredVideos host videos filters \<and>
   set (filteredVideos host (filteredVideos host videos filters) filters) =
     set (filteredVideos host videos filters) \<and>
   filteredVideos host videos defaultFilters = videos \<and>
   experienceLevel defaultFilters = [''all''] \<and> searchQuery defaultFilters = [] \<and>
   ratingMin defaultFilters = 0 \<and>
   dateRange defaultFilters = \<lparr>range_start = None, range_end = None\<rparr>"
  by (simp add: filteredVideos_def keepVideo_default) (simp add: defaultFilters_def)



text \<open>
  Claim C8. The text match is a substring test on the lower-cased title, full name, email
  and experience, true if any of them contains the lower-cased query; it does not see the
  case of the query or of the fields: writing the query, or the four fields of the record,
  in capitals changes nothing (a query in capitals is found in a name in mixed case). The
  empty query matches every record, and a record
  whose title is the query is matched whatever its other fields hold: the filter keeps it
  when the other criteria are the defaults, and in general the text criterion never excludes
  it.
\<close>

theorem matchesSearchQuery_substring:
  "matchesSearchQuery video query =
     (sublist (toLowerCase query) (toLowerCase (title video)) \<or>
      (\<exists>candidate. candidate_details video = Some candidate \<and>
         (sublist (toLowerCase query) (toLowerCase (full_name candidate)) \<or>
          sublist (toLowerCase query) (toLowerCase (email candidate)) \<or>
          (\<exists>e. experience candidate = Some e \<and>
             sublist (toLowerCase query) (toLowerCase e))))) \<and>
   matchesSearchQuery video (toLowerCase query) = matchesSearchQuery video query \<and>
   matchesSearchQuery (video\<lparr>title := toLowerCase (title video)\<rparr>) query =
     matchesSearchQuery video query \<and>
   matchesSearchQuery video [] \<and>
   matchesSearchQuery video (title video) \<and>
   keepVideo host (defaultFilters\<lparr>searchQuery := []\<rparr>) video \<and>
   keepVideo host (defaultFilters\<lparr>searchQuery := title video\<rparr>) video \<and>
   keepVideo host (filters\<lparr>searchQuery := title video\<rparr>) video =
     keepVideo host (filters\<lparr>searchQuery := []\<rparr>) video \<and>
   matchesSearchQuery video (capitals query) = matchesSearchQuery video query \<and>
   matchesSearchQuery (capitalsVideo video) query = matchesSearchQuery video query \<and>
   capitals ''ada lovelace'' = ''ADA LOVELACE'' \<and>
   toLowerCase ''Ada LOVELACE'' = ''ada lovelace'' \<and>
   matchesSearchQuery (sampleVideo ''v1'' None None) ''LOVELACE'' \<and>
   matchesSearchQuery (sampleVideo ''v1'' None None) ''end eng'' \<and>
   matchesSearchQuery (sampleVideo ''v1'' None None) ''ADA@Example'' \<and>
   matchesSearchQuery (sampleVideo ''v1'' (Some ''4 Years'') None) ''years'' \<and>
   \<not> matchesSearchQuery (sampleVideo ''v1'' (Some ''4 Years'') None) ''frontend''"
proof -
  have a: "matchesSearchQuery v q =
     (sublist (toLowerCase q) (toLowerCase (title v)) \<or>
      (\<exists>candidate. candidate_details v = Some candidate \<and>
         (sublist (toLowerCase q) (toLowerCase (full_name candidate)) \<or>
          sublist (toLowerCase q) (toLowerCase (email candidate)) \<or>
          (\<exists>e. experience candidate = Some e \<and>
             sublist (toLowerCase q) (toLowerCase e)))))" for v q
    by (auto simp: matchesSearchQuery_def includes_str_sublist Let_def split: option.splits)
  have b: "matchesSearchQuery video (toLowerCase query) = matchesSearchQuery video query"
    by (simp add: matchesSearchQuery_def toLowerCase_idem)
  have c: "matchesSearchQuery (video\<lparr>title := toLowerCase (title video)\<rparr>) query =
     matchesSearchQuery video query"
    by (simp add: matchesSearchQuery_def toLowerCase_idem)
  have d: "matchesSearchQuery video []"
    by (simp add: a toLowerCase_def)
  have e: "matchesSearchQuery video (title video)"
    by (simp add: a)
  have f: "keepVideo host (defaultFilters\<lparr>searchQuery := q\<rparr>) video
      = (q = [] \<or> matchesSearchQuery video q)" for q
    by (simp add: keepVideo_iff defaultFilters_def matchesDateRange_open)
  have g: "keepVideo host (filters\<lparr>searchQuery := title video\<rparr>) video =
     keepVideo host (filters\<lparr>searchQuery := []\<rparr>) video"
    using e by (simp add: keepVideo_iff)
  have h: "matchesSearchQuery video (capitals query) = matchesSearchQuery video query"
    by (simp add: matchesSearchQuery_def toLowerCase_capitals)
  have i: "matchesSearchQuery (capitalsVideo video) query = matchesSearchQuery video query"
    by (cases "candidate_details video")
      (auto simp: matchesSearchQuery_def capitalsVideo_def toLowerCase_capitals Let_def
        split: option.splits)
  have j: "capitals ''ada lovelace'' = ''ADA LOVELACE''"
    "toLowerCase ''Ada LOVELACE'' = ''ada lovelace''"
    "matchesSearchQuery (sampleVideo ''v1'' None None) ''LOVELACE''"
    "matchesSearchQuery (sampleVideo ''v1'' None None) ''end eng''"
    "matchesSearchQuery (sampleVideo ''v1'' None None) ''ADA@Example''"
    "matchesSearchQuery (sampleVideo ''v1'' (Some ''4 Years'') None) ''years''"
    "\<not> matchesSearchQuery (sampleVideo ''v1'' (Some ''4 Years'') None) ''frontend''"
    by code_simp+
  have k: "keepVideo host (defaultFilters\<lparr>searchQuery := []\<rparr>) video"
    "keepVideo host (defaultFilters\<lparr>searchQuery := title video\<rparr>) video"
    using e by (simp_all add: f)
  show ?thesis
    using a[of video query] b c d e g h i j k by (intro conjI)
qed

subsection \<open>Date range\<close>







subsection \<open>Experience buckets\<close>

lemma levelHolds_Some:
  "levelHolds (Some n) level =
     ((level = ''0-2'' \<and> 0 \<le> n \<and> n \<le> 2) \<or> (level = ''3-5'' \<and> 3 \<le> n \<and> n \<le> 5) \<or>
      (level = ''5+'' \<and> 5 < n))"
  by (auto simp: levelHolds_def num_ge_def num_le_def num_gt_def)

lemma levelHolds_None: "\<not> levelHolds None level"
  by (simp add: levelHolds_def num_ge_def num_le_def num_gt_def)

lemma parseInt_Nil: "parseInt [] radix = None"
  by (simp add: parseInt_def startsWithDigit_def)

lemma matchesExperienceLevel_Some:
  assumes "candidate_details video = Some cd" "experience cd = Some e" "parseInt e 0 = Some n"
  shows "matchesExperienceLevel video levels =
     ((''0-2'' \<in> set levels \<and> 0 \<le> n \<and> n \<le> 2) \<or> (''3-5'' \<in> set levels \<and> 3 \<le> n \<and> n \<le> 5) \<or>
      (''5+'' \<in> set levels \<and> 5 < n))"
proof -
  from assms have "e \<noteq> []" by (auto simp: parseInt_Nil)
  with assms have "matchesExperienceLevel video levels = list_ex (levelHolds (Some n)) levels"
    by (simp add: matchesExperienceLevel_def experienceOf_def)
  then show ?thesis
    unfolding list_ex_iff levelHolds_Some by blast
qed

lemma matchesExperienceLevel_unparseable:
  assumes "candidate_details video = None \<or>
     (\<exists>cd. candidate_details video = Some cd \<and>
        (experience cd = None \<or> (\<exists>e. experience cd = Some e \<and> parseInt e 0 = None)))"
  shows "\<not> matchesExperienceLevel video levels"
  using assms
  by (auto simp: matchesExperienceLevel_def experienceOf_def list_ex_iff levelHolds_None
      split: option.splits)

text \<open>
  Claim C2. For every record whose experience string starts with an integer \<open>n\<close> (as
  \<^verbatim>\<open>parseInt\<close> reads it), the record matches bucket \<open>0-2\<close> iff \<open>0 \<le> n \<le> 2\<close>,
  bucket \<open>3-5\<close> iff \<open>3 \<le> n \<le> 5\<close> and bucket \<open>5+\<close> iff \<open>n > 5\<close>; a record with no
  experience, or one that does not parse, matches no bucket; and when \<open>all\<close> is among
  the selected levels the filter does not consult the buckets at all.
\<close>

theorem matchesExperienceLevel_buckets:
  "(candidate_details video = Some cd \<and> experience cd = Some e \<and> parseInt e 0 = Some n \<longrightarrow>
      (matchesExperienceLevel video [''0-2''] \<longleftrightarrow> 0 \<le> n \<and> n \<le> 2) \<and>
      (matchesExperienceLevel video [''3-5''] \<longleftrightarrow> 3 \<le> n \<and> n \<le> 5) \<and>
      (matchesExperienceLevel video [''5+''] \<longleftrightarrow> 5 < n) \<and>
      (matchesExperienceLevel video levels \<longleftrightarrow>
         (''0-2'' \<in> set levels \<and> 0 \<le> n \<and> n \<le> 2) \<or>
         (''3-5'' \<in> set levels \<and> 3 \<le> n \<and> n \<le> 5) \<or>
         (''5+'' \<in> set levels \<and> 5 < n))) \<and>
   (candidate_details video = None \<or>
      (\<exists>cd. candidate_details video = Some cd \<and>
         (experience cd = None \<or> (\<exists>e. experience cd = Some e \<and> parseInt e 0 = None))) \<longrightarrow>
      \<not> matchesExperienceLevel video levels) \<and>
   (''all'' \<in> set (experienceLevel filters) \<longrightarrow>
      (keepVideo host filters video \<longleftrightarrow>
         (searchQuery filters = [] \<or> matchesSearchQuery video (searchQuery filters)) \<and>
         (ratingMin filters \<le> 0 \<or> matchesRatingMin host video (ratingMin filters)) \<and>
         matchesDateRange host video (dateRange filters)))"
proof (intro conjI impI)
  assume h: "candidate_details video = Some cd \<and> experience cd = Some e \<and> parseInt e 0 = Some n"
  then have *: "matchesExperienceLevel video ls =
     ((''0-2'' \<in> set ls \<and> 0 \<le> n \<and> n \<le> 2) \<or> (''3-5'' \<in> set ls \<and> 3 \<le> n \<and> n \<le> 5) \<or>
      (''5+'' \<in> set ls \<and> 5 < n))" for ls
    by (intro matchesExperienceLevel_Some) auto
  show "matchesExperienceLevel video [''0-2''] \<longleftrightarrow> 0 \<le> n \<and> n \<le> 2" by (simp add: *)
  show "matchesExperienceLevel video [''3-5''] \<longleftrightarrow> 3 \<le> n \<and> n \<le> 5" by (simp add: *)
  show "matchesExperienceLevel video [''5+''] \<longleftrightarrow> 5 < n" by (simp add: *)
  show "matchesExperienceLevel video levels \<longleftrightarrow>
         (''0-2'' \<in> set levels \<and> 0 \<le> n \<and> n \<le> 2) \<or>
         (''3-5'' \<in> set levels \<and> 3 \<le> n \<and> n \<le> 5) \<or>
         (''5+'' \<in> set levels \<and> 5 < n)" by (rule *)
next
  assume "candidate_details video = None \<or>
      (\<exists>cd. candidate_details video = Some cd \<and>
         (experience cd = None \<or> (\<exists>e. experience cd = Some e \<and> parseInt e 0 = None)))"
  then show "\<not> matchesExperienceLevel video levels"
    by (rule matchesExperienceLevel_unparseable)
next
  assume "''all'' \<in> set (experienceLevel filters)"
  then show "keepVideo host filters video \<longleftrightarrow>
         (searchQuery filters = [] \<or> matchesSearchQuery video (searchQuery filters)) \<and>
         (ratingMin filters \<le> 0 \<or> matchesRatingMin host video (ratingMin filters)) \<and>
         matchesDateRange host video (dateRange filters)"
    by (simp add: keepVideo_iff)
qed

text \<open>The boundary values 2, 3, 5 and 6, a text that is no number, and no
  experience at all.\<close>

theorem matchesExperienceLevel_buckets_witness:
  "matchesExperienceLevel (sampleVideo ''v1'' (Some ''2 years'') None) [''0-2''] \<and>
   \<not> matchesExperienceLevel (sampleVideo ''v1'' (Some ''2 years'') None) [''3-5''] \<and>
   \<not> matchesExperienceLevel (sampleVideo ''v1'' (Some ''2 years'') None) [''5+''] \<and>
   \<not> matchesExperienceLevel (sampleVideo ''v2'' (Some ''3'') None) [''0-2''] \<and>
   matchesExperienceLevel (sampleVideo ''v2'' (Some ''3'') None) [''3-5''] \<and>
   \<not> matchesExperienceLevel (sampleVideo ''v2'' (Some ''3'') None) [''5+''] \<and>
   \<not> matchesExperienceLevel (sampleVideo ''v3'' (Some '' 5 yrs'') None) [''0-2''] \<and>
   matchesExperienceLevel (sampleVideo ''v3'' (Some '' 5 yrs'') None) [''3-5''] \<and>
   \<not> matchesExperienceLevel (sampleVideo ''v3'' (Some '' 5 yrs'') None) [''5+''] \<and>
   \<not> matchesExperienceLevel (sampleVideo ''v4'' (Some ''6+ years'') None) [''0-2''] \<and>
   \<not> matchesExperienceLevel (sampleVideo ''v4'' (Some ''6+ years'') None) [''3-5''] \<and>
   matchesExperienceLevel (sampleVideo ''v4'' (Some ''6+ years'') None) [''5+''] \<and>
   \<not> matchesExperienceLevel (sampleVideo ''v5'' (Some ''senior'') None) [''0-2'', ''3-5'', ''5+''] \<and>
   \<not> matchesExperienceLevel (sampleVideo ''v6'' None None) [''0-2'', ''3-5'', ''5+''] \<and>
   keepVideo utcHost (defaultFilters\<lparr>experienceLevel := [''0-2'', ''all'']\<rparr>)
     (sampleVideo ''v5'' (Some ''senior'') None)"
proof -
  have bk: "(matchesExperienceLevel (sampleVideo i (Some e) None) [''0-2''] \<longleftrightarrow> 0 \<le> n \<and> n \<le> 2) \<and>
      (matchesExperienceLevel (sampleVideo i (Some e) None) [''3-5''] \<longleftrightarrow> 3 \<le> n \<and> n \<le> 5) \<and>
      (matchesExperienceLevel (sampleVideo i (Some e) None) [''5+''] \<longleftrightarrow> 5 < n)"
    if "parseInt e 0 = Some n" for i e n
  proof -
    have "candidate_details (sampleVideo i (Some e) None) =
        Some \<lparr>full_name = ''Ada Lovelace'', email = ''ada@example.org'', experience = Some e\<rparr> \<and>
      experience \<lparr>full_name = ''Ada Lovelace'', email = ''ada@example.org'', experience = Some e\<rparr> = Some e \<and>
      parseInt e 0 = Some n"
      using that by (simp add: sampleVideo_def)
    then show ?thesis
      using matchesExperienceLevel_buckets[of "sampleVideo i (Some e) None"
          "\<lparr>full_name = ''Ada Lovelace'', email = ''ada@example.org'', experience = Some e\<rparr>" e n]
      by blast
  qed
  have no: "\<not> matchesExperienceLevel (sampleVideo i e None) [''0-2'', ''3-5'', ''5+'']"
    if "e = None \<or> (\<exists>x. e = Some x \<and> parseInt x 0 = None)" for i e
  proof -
    have "candidate_details (sampleVideo i e None) = None \<or>
      (\<exists>cd. candidate_details (sampleVideo i e None) = Some cd \<and>
         (experience cd = None \<or> (\<exists>x. experience cd = Some x \<and> parseInt x 0 = None)))"
      using that by (auto simp: sampleVideo_def)
    then show ?thesis
      using matchesExperienceLevel_buckets[of "sampleVideo i e None"] by blast
  qed
  have al: "''all'' \<in> set (experienceLevel (defaultFilters\<lparr>experienceLevel := [''0-2'', ''all'']\<rparr>))"
    by simp
  have kp: "keepVideo utcHost (defaultFilters\<lparr>experienceLevel := [''0-2'', ''all'']\<rparr>) v =
      ((searchQuery (defaultFilters\<lparr>experienceLevel := [''0-2'', ''all'']\<rparr>) = [] \<or>
          matchesSearchQuery v (searchQuery (defaultFilters\<lparr>experienceLevel := [''0-2'', ''all'']\<rparr>))) \<and>
       (ratingMin (defaultFilters\<lparr>experienceLevel := [''0-2'', ''all'']\<rparr>) \<le> 0 \<or>
          matchesRatingMin utcHost v (ratingMin (defaultFilters\<lparr>experienceLevel := [''0-2'', ''all'']\<rparr>))) \<and>
       matchesDateRange utcHost v (dateRange (defaultFilters\<lparr>experienceLevel := [''0-2'', ''all'']\<rparr>)))"
    for v
    using al matchesExperienceLevel_buckets[where filters = "defaultFilters\<lparr>experienceLevel := [''0-2'', ''all'']\<rparr>"
        and host = utcHost and video = v]
    by blast
  have 9: "keepVideo utcHost (defaultFilters\<lparr>experienceLevel := [''0-2'', ''all'']\<rparr>)
     (sampleVideo ''v5'' (Some ''senior'') None)"
    unfolding kp by (simp add: defaultFilters_def matchesDateRange_open)
  show ?thesis
    using bk[OF parseInt_examples(1), of "''v1''"] bk[OF parseInt_examples(2), of "''v2''"]
      bk[OF parseInt_examples(3), of "''v3''"] bk[OF parseInt_examples(4), of "''v4''"]
      no[of "Some ''senior''" "''v5''"] no[of None "''v6''"] 9 parseInt_examples(5)
    by simp
qed

subsection \<open>Rating threshold\<close>

lemma jsRem_20_bounds: "- 19 \<le> jsRem n 20 \<and> jsRem n 20 \<le> 19"
proof -
  have "0 \<le> \<bar>n\<bar> mod 20" "\<bar>n\<bar> mod 20 \<le> 19" by simp_all
  then show ?thesis
    by (cases "n < 0"; cases "n = 0") (simp_all add: jsRem_def sgn_if)
qed

lemma jsRem_nonneg: "0 \<le> n \<Longrightarrow> jsRem n 20 = n mod 20"
  by (simp add: jsRem_def sgn_if)

lemma jsRem_neg: "n < 0 \<Longrightarrow> jsRem n 20 = - ((- n) mod 20)"
  by (simp add: jsRem_def sgn_if)

lemma toNumber_exact: "\<bar>n\<bar> \<le> 2 ^ 53 \<Longrightarrow> toNumber host n = Some n"
  by (simp add: toNumber_def)

lemma toNumber_big:
  "2 ^ 53 < \<bar>n\<bar> \<Longrightarrow>
   toNumber host n = map_option (\<lambda>m. sgn n * int m) (bigInteger host (nat \<bar>n\<bar>))"
  by (simp add: toNumber_def)

lemma toNumber_sign:
  "toNumber host n = Some m \<Longrightarrow> (0 \<le> n \<longrightarrow> 0 \<le> m) \<and> (n < 0 \<longrightarrow> m \<le> 0)"
  by (auto simp: toNumber_def sgn_if split: if_splits)

lemma mockRating_Some:
  "mockRating host video = Some r \<longleftrightarrow>
     (\<exists>n m. parseInt (video_id video) 36 = Some n \<and> toNumber host n = Some m \<and>
        r = real_of_int (jsRem m 20) / 4 + 3)"
  by (auto simp: mockRating_def split: option.splits)

lemma quarter_bounds:
  "a \<le> k \<Longrightarrow> k \<le> b \<Longrightarrow>
   real_of_int a / 4 + 3 \<le> real_of_int k / 4 + 3 \<and> real_of_int k / 4 + 3 \<le> real_of_int b / 4 + 3"
  by simp

lemma mockRating_range: "mockRating host video = Some r \<Longrightarrow> - (7 / 4) \<le> r \<and> r \<le> 31 / 4"
proof -
  assume "mockRating host video = Some r"
  then obtain m where r: "r = real_of_int (jsRem m 20) / 4 + 3"
    by (auto simp: mockRating_Some)
  show ?thesis
    using quarter_bounds[of "- 19" "jsRem m 20" 19] jsRem_20_bounds[of m] unfolding r by simp
qed

lemma mockRating_range_nonneg:
  assumes "parseInt (video_id video) 36 = Some n" "0 \<le> n" "mockRating host video = Some r"
  shows "3 \<le> r \<and> r \<le> 31 / 4"
proof -
  from assms obtain m where m: "toNumber host n = Some m" and r: "r = real_of_int (jsRem m 20) / 4 + 3"
    by (auto simp: mockRating_Some)
  from m assms(2) have "0 \<le> m" using toNumber_sign by blast
  then have "jsRem m 20 = m mod 20" by (rule jsRem_nonneg)
  moreover have "0 \<le> m mod 20" "m mod 20 \<le> 19" by simp_all
  ultimately show ?thesis
    using quarter_bounds[of 0 "jsRem m 20" 19] unfolding r by simp
qed

lemma mockRating_range_neg:
  assumes "parseInt (video_id video) 36 = Some n" "n < 0" "mockRating host video = Some r"
  shows "- (7 / 4) \<le> r \<and> r \<le> 3"
proof -
  from assms obtain m where m: "toNumber host n = Some m" and r: "r = real_of_int (jsRem m 20) / 4 + 3"
    by (auto simp: mockRating_Some)
  from m assms(2) have "m \<le> 0" using toNumber_sign by blast
  then have "jsRem m 20 \<le> 0"
    by (cases "m = 0") (simp_all add: jsRem_def sgn_if)
  then show ?thesis
    using quarter_bounds[of "- 19" "jsRem m 20" 0] jsRem_20_bounds[of m] unfolding r by simp
qed

lemma bigInteger_examples:
  "nearestDouble 4738381338321616895 = Some 4738381338321616896"
  "nearestDouble 5663601331616116369 = Some 5663601331616116736"
  by (simp_all add: nearestDouble_def bitLength.simps Let_def)

lemma rating_examples:
  "mockRating host (sampleVideo ''-j'' e c) = Some (- (7 / 4))"
  "mockRating host (sampleVideo ''_x'' e c) = None"
  "mockRating host (sampleVideo ''550e8400-e29b'' e c) = Some 7"
  by (simp_all add: mockRating_def sampleVideo_def parseInt_examples jsRem_def toNumber_def)

text \<open>
  Claim C7, as amended. The rating is not stored: it is derived from the identifier
  alone (and is the same on every reload). An identifier with no leading base-36 digit has
  no rating. One that reads as a number \<open>n\<close> of size up to \<open>2 ^ 53\<close> has the rating
  \<open>(n mod 20) / 4 + 3\<close>, between 3 and 7.75, when \<open>n\<close> is not negative, and
  \<open>3 - (-n mod 20) / 4\<close>, between -1.75 and 3, when it is negative; beyond
  \<open>2 ^ 53\<close> the same is computed from the double the engine read, in the same ranges, and
  there is no rating when that double is infinite. The predicate matches iff the record
  has a rating and it is at least the threshold. The filter consults the predicate only
  for a threshold above zero; with threshold 0 (or below) it keeps every record the other
  criteria keep.
\<close>

theorem mockRating_threshold:
  "(video_id video = video_id video' \<longrightarrow> mockRating host video = mockRating host video') \<and>
   (parseInt (video_id video) 36 = None \<longrightarrow> mockRating host video = None) \<and>
   (parseInt (video_id video) 36 = Some n \<and> 0 \<le> n \<and> n \<le> 2 ^ 53 \<longrightarrow>
      mockRating host video = Some (real_of_int (n mod 20) / 4 + 3)) \<and>
   (parseInt (video_id video) 36 = Some n \<and> n < 0 \<and> - (2 ^ 53) \<le> n \<longrightarrow>
      mockRating host video = Some (3 - real_of_int ((- n) mod 20) / 4)) \<and>
   (parseInt (video_id video) 36 = Some n \<and> 2 ^ 53 < \<bar>n\<bar> \<longrightarrow>
      mockRating host video =
        (case bigInteger host (nat \<bar>n\<bar>) of
           None \<Rightarrow> None
         | Some m \<Rightarrow> Some (real_of_int (sgn n * int (m mod 20)) / 4 + 3))) \<and>
   (parseInt (video_id video) 36 = Some n \<and> 0 \<le> n \<and> mockRating host video = Some r \<longrightarrow>
      3 \<le> r \<and> r \<le> 31 / 4) \<and>
   (parseInt (video_id video) 36 = Some n \<and> n < 0 \<and> mockRating host video = Some r \<longrightarrow>
      - (7 / 4) \<le> r \<and> r \<le> 3) \<and>
   (mockRating host video = Some r \<longrightarrow> - (7 / 4) \<le> r \<and> r \<le> 31 / 4) \<and>
   (matchesRatingMin host video minRating \<longleftrightarrow>
      (\<exists>r. mockRating host video = Some r \<and> minRating \<le> r)) \<and>
   (keepVideo host filters video \<longleftrightarrow>
      keepVideo host (filters\<lparr>ratingMin := 0\<rparr>) video \<and>
      (ratingMin filters \<le> 0 \<or> (\<exists>r. mockRating host video = Some r \<and> ratingMin filters \<le> r))) \<and>
   (0 < minRating \<longrightarrow>
      (keepVideo host (defaultFilters\<lparr>ratingMin := minRating\<rparr>) video \<longleftrightarrow>
         (\<exists>r. mockRating host video = Some r \<and> minRating \<le> r))) \<and>
   keepVideo host (defaultFilters\<lparr>ratingMin := 0\<rparr>) video"
proof -
  have m: "matchesRatingMin host video t \<longleftrightarrow> (\<exists>r. mockRating host video = Some r \<and> t \<le> r)" for t
    by (simp add: matchesRatingMin_def split: option.splits)
  have a: "video_id video = video_id video' \<longrightarrow> mockRating host video = mockRating host video'"
    by (simp add: mockRating_def)
  have n0: "parseInt (video_id video) 36 = None \<longrightarrow> mockRating host video = None"
    by (simp add: mockRating_def)
  have b: "parseInt (video_id video) 36 = Some n \<and> 0 \<le> n \<and> n \<le> 2 ^ 53 \<longrightarrow>
      mockRating host video = Some (real_of_int (n mod 20) / 4 + 3)"
    by (auto simp: mockRating_def toNumber_exact jsRem_nonneg)
  have b': "parseInt (video_id video) 36 = Some n \<and> n < 0 \<and> - (2 ^ 53) \<le> n \<longrightarrow>
      mockRating host video = Some (3 - real_of_int ((- n) mod 20) / 4)"
    by (auto simp: mockRating_def toNumber_exact jsRem_neg)
  have big: "parseInt (video_id video) 36 = Some n \<and> 2 ^ 53 < \<bar>n\<bar> \<longrightarrow>
      mockRating host video =
        (case bigInteger host (nat \<bar>n\<bar>) of
           None \<Rightarrow> None
         | Some m \<Rightarrow> Some (real_of_int (sgn n * int (m mod 20)) / 4 + 3))"
  proof (intro impI, elim conjE)
    assume p: "parseInt (video_id video) 36 = Some n" and g: "2 ^ 53 < \<bar>n\<bar>"
    have "jsRem (sgn n * int k) 20 = sgn n * int (k mod 20)" for k
      using g by (cases "k = 0") (auto simp: jsRem_def sgn_if abs_mult zmod_int)
    then show "mockRating host video =
        (case bigInteger host (nat \<bar>n\<bar>) of
           None \<Rightarrow> None
         | Some m \<Rightarrow> Some (real_of_int (sgn n * int (m mod 20)) / 4 + 3))"
      using p g by (simp add: mockRating_def toNumber_big split: option.splits)
  qed
  have c1: "parseInt (video_id video) 36 = Some n \<and> 0 \<le> n \<and> mockRating host video = Some r \<longrightarrow>
      3 \<le> r \<and> r \<le> 31 / 4"
    using mockRating_range_nonneg by blast
  have c2: "parseInt (video_id video) 36 = Some n \<and> n < 0 \<and> mockRating host video = Some r \<longrightarrow>
      - (7 / 4) \<le> r \<and> r \<le> 3"
    using mockRating_range_neg by blast
  have c: "mockRating host video = Some r \<longrightarrow> - (7 / 4) \<le> r \<and> r \<le> 31 / 4"
    using mockRating_range by blast
  have d: "keepVideo host filters video \<longleftrightarrow>
      keepVideo host (filters\<lparr>ratingMin := 0\<rparr>) video \<and>
      (ratingMin filters \<le> 0 \<or> (\<exists>r. mockRating host video = Some r \<and> ratingMin filters \<le> r))"
    by (auto simp: keepVideo_iff m)
  have e: "keepVideo host (defaultFilters\<lparr>ratingMin := t\<rparr>) video \<longleftrightarrow>
      t \<le> 0 \<or> (\<exists>r. mockRating host video = Some r \<and> t \<le> r)" for t
    by (simp add: keepVideo_iff m defaultFilters_def matchesDateRange_def split: option.splits)
  have e1: "0 < minRating \<longrightarrow>
      (keepVideo host (defaultFilters\<lparr>ratingMin := minRating\<rparr>) video \<longleftrightarrow>
         (\<exists>r. mockRating host video = Some r \<and> minRating \<le> r))"
    using e[of minRating] by auto
  have e0: "keepVideo host (defaultFilters\<lparr>ratingMin := 0\<rparr>) video"
    using e[of 0] by simp
  show ?thesis
    using a n0 b b' big c1 c2 c m[of minRating] d e1 e0 by (intro conjI)
qed

text \<open>An identifier with rating 7 against thresholds below and above it, a negative one,
  one without rating, and one of twelve digits, whose number is a rounded double.\<close>

theorem mockRating_threshold_witness:
  "mockRating utcHost (sampleVideo ''550e8400-e29b'' None None) =
     mockRating utcHost (sampleVideo ''550e8400-e29b'' (Some ''4 years'') (Some ''2024-01-10 23:59'')) \<and>
   mockRating utcHost (sampleVideo ''550e8400-e29b'' None None) = Some 7 \<and>
   mockRating utcHost (sampleVideo ''-j'' None None) = Some (- (7 / 4)) \<and>
   mockRating utcHost (sampleVideo ''_x'' None None) = None \<and>
   mockRating utcHost (sampleVideo ''zzzzzzzzzzzz'' None None) = Some 7 \<and>
   keepVideo utcHost (defaultFilters\<lparr>ratingMin := 9 / 2\<rparr>)
     (sampleVideo ''550e8400-e29b'' None None) \<and>
   \<not> keepVideo utcHost (defaultFilters\<lparr>ratingMin := 15 / 2\<rparr>)
     (sampleVideo ''550e8400-e29b'' None None) \<and>
   \<not> keepVideo utcHost (defaultFilters\<lparr>ratingMin := 1 / 2\<rparr>)
     (sampleVideo ''_x'' None None) \<and>
   keepVideo utcHost (defaultFilters\<lparr>ratingMin := 0\<rparr>) (sampleVideo ''_x'' None None)"
proof -
  let ?v = "sampleVideo ''550e8400-e29b'' None None"
  let ?v' = "sampleVideo ''550e8400-e29b'' (Some ''4 years'') (Some ''2024-01-10 23:59'')"
  let ?j = "sampleVideo ''-j'' None None"
  let ?x = "sampleVideo ''_x'' None None"
  let ?z = "sampleVideo ''zzzzzzzzzzzz'' None None"
  have i: "video_id ?v = video_id ?v'"
    by (simp add: sampleVideo_def)
  have p: "parseInt (video_id ?v) 36 = Some 402728625216 \<and> (0::int) \<le> 402728625216 \<and>
      (402728625216::int) \<le> 2 ^ 53"
    by (simp add: sampleVideo_def parseInt_examples)
  have pj: "parseInt (video_id ?j) 36 = Some (- 19) \<and> (- 19 :: int) < 0 \<and> - (2 ^ 53) \<le> (- 19 :: int)"
    by (simp add: sampleVideo_def parseInt_examples)
  have px: "parseInt (video_id ?x) 36 = None"
    by (simp add: sampleVideo_def parseInt_examples)
  have pz: "parseInt (video_id ?z) 36 = Some 4738381338321616895 \<and>
      2 ^ 53 < \<bar>4738381338321616895 :: int\<bar>"
    by (simp add: sampleVideo_def parseInt_def startsWithDigit_def radixDigit_def digitValue_def
        isWhiteSpace_def)
  have bz: "bigInteger utcHost (nat \<bar>4738381338321616895\<bar>) = Some 4738381338321616896"
    by (simp add: utcHost_def hostAt_def bigInteger_examples)
  have 1: "mockRating utcHost ?v = mockRating utcHost ?v'"
    using i mockRating_threshold[of ?v ?v' utcHost] by blast
  have 2: "mockRating utcHost ?v = Some (real_of_int (402728625216 mod 20) / 4 + 3)"
    using p mockRating_threshold[where video = ?v and n = 402728625216 and host = utcHost]
    by blast
  have seven: "mockRating utcHost ?v = Some 7"
    unfolding 2 by simp
  have 3: "mockRating utcHost ?j = Some (3 - real_of_int ((- (- 19)) mod 20) / 4)"
    using pj mockRating_threshold[where video = ?j and n = "- 19" and host = utcHost]
    by blast
  have neg: "mockRating utcHost ?j = Some (- (7 / 4))"
    unfolding 3 by simp
  have none: "mockRating utcHost ?x = None"
    using px mockRating_threshold[where video = ?x and host = utcHost] by blast
  have 4: "mockRating utcHost ?z =
      (case bigInteger utcHost (nat \<bar>4738381338321616895\<bar>) of
           None \<Rightarrow> None
         | Some m \<Rightarrow> Some (real_of_int (sgn 4738381338321616895 * int (m mod 20)) / 4 + 3))"
    using pz mockRating_threshold[where video = ?z and n = 4738381338321616895 and host = utcHost]
    by blast
  have big: "mockRating utcHost ?z = Some 7"
    unfolding 4 bz by simp
  have 5: "keepVideo utcHost (defaultFilters\<lparr>ratingMin := t\<rparr>) v \<longleftrightarrow>
         (\<exists>r. mockRating utcHost v = Some r \<and> t \<le> r)" if "0 < t" for t v
    using that mockRating_threshold[where minRating = t and video = v and host = utcHost]
    by blast
  have 6: "keepVideo utcHost (defaultFilters\<lparr>ratingMin := 0\<rparr>) v" for v
    using mockRating_threshold[where video = v and host = utcHost] by blast
  have k1: "keepVideo utcHost (defaultFilters\<lparr>ratingMin := 9 / 2\<rparr>) ?v"
    using 5[of "9 / 2" ?v] seven by simp
  have k2: "\<not> keepVideo utcHost (defaultFilters\<lparr>ratingMin := 15 / 2\<rparr>) ?v"
    using 5[of "15 / 2" ?v] seven by simp
  have k3: "\<not> keepVideo utcHost (defaultFilters\<lparr>ratingMin := 1 / 2\<rparr>) ?x"
    using 5[of "1 / 2" ?x] none by simp
  show ?thesis
    using 1 seven neg none big k1 k2 k3 6[of ?x] by (intro conjI)
qed

text \<open>
  As the claim states it, a record matches iff its rating is at least the threshold and
  threshold 0 matches every record. An identifier that parses to a negative number has a
  rating below 0, and one with no leading base-36 digit has none: the predicate rejects
  both at threshold 0, while the filter keeps them.
\<close>

theorem mockRating_threshold_counterexample:
  "mockRating utcHost (sampleVideo ''-j'' None None) = Some (- (7 / 4)) \<and>
   \<not> matchesRatingMin utcHost (sampleVideo ''-j'' None None) 0 \<and>
   filteredVideos utcHost [sampleVideo ''-j'' None None] (defaultFilters\<lparr>ratingMin := 0\<rparr>) =
     [sampleVideo ''-j'' None None] \<and>
   mockRating utcHost (sampleVideo ''_x'' None None) = None \<and>
   \<not> matchesRatingMin utcHost (sampleVideo ''_x'' None None) 0 \<and>
   filteredVideos utcHost [sampleVideo ''_x'' None None] (defaultFilters\<lparr>ratingMin := 0\<rparr>) =
     [sampleVideo ''_x'' None None]"
proof -
  have "keepVideo utcHost (defaultFilters\<lparr>ratingMin := 0\<rparr>) v" for v
    by (simp add: keepVideo_iff defaultFilters_def matchesDateRange_open)
  then show ?thesis
    by (simp add: filteredVideos_def matchesRatingMin_def rating_examples)
qed

section \<open>Aggregation\<close>

text \<open>
  Claim C9. For every record collection the total-applicants metric is the length of the
  collection and the in-progress metric is the floor of 0.6 times the total, a function of
  the total alone (six tenths in integer arithmetic); for 10 records it is 6.
\<close>

theorem dynamicMetrics_total_and_progress:
  "totalApplicants (dynamicMetrics videos) = length videos \<and>
   applicantsInProgress (dynamicMetrics videos) = \<lfloor>0.6 * real (totalApplicants (dynamicMetrics videos))\<rfloor> \<and>
   applicantsInProgress (dynamicMetrics videos) = (int (length videos) * 6) div 10 \<and>
   applicantsInProgress (dynamicMetrics (replicate 10 v)) = 6"
proof -
  have "real (length videos) * 0.6 = real_of_int (int (length videos) * 6) / real_of_int 10"
    by simp
  then have "\<lfloor>real (length videos) * 0.6\<rfloor> = (int (length videos) * 6) div 10"
    by (simp only: floor_divide_of_int_eq)
  then show ?thesis
    by (simp add: dynamicMetrics_def mult.commute)
qed

section \<open>Question list\<close>

lemma trim_Nil_iff: "trim s = [] \<longleftrightarrow> list_all isWhiteSpace s"
proof -
  have "trim s = [] \<longleftrightarrow> dropWhile isWhiteSpace (rev (dropWhile isWhiteSpace s)) = []"
    by (simp add: trim_def)
  also have "\<dots> \<longleftrightarrow> (\<forall>x \<in> set (dropWhile isWhiteSpace s). isWhiteSpace x)"
    by (simp only: dropWhile_eq_Nil_conv set_rev)
  also have "\<dots> \<longleftrightarrow> dropWhile isWhiteSpace s = []"
  proof
    assume all: "\<forall>x \<in> set (dropWhile isWhiteSpace s). isWhiteSpace x"
    show "dropWhile isWhiteSpace s = []"
    proof (rule ccontr)
      assume ne: "dropWhile isWhiteSpace s \<noteq> []"
      then have "\<not> isWhiteSpace (hd (dropWhile isWhiteSpace s))"
        by (rule hd_dropWhile)
      moreover have "hd (dropWhile isWhiteSpace s) \<in> set (dropWhile isWhiteSpace s)"
        using ne by (rule hd_in_set)
      ultimately show False using all by blast
    qed
  next
    assume e: "dropWhile isWhiteSpace s = []"
    show "\<forall>x \<in> set (dropWhile isWhiteSpace s). isWhiteSpace x"
      unfolding e by simp
  qed
  also have "\<dots> \<longleftrightarrow> list_all isWhiteSpace s"
    by (simp add: dropWhile_eq_Nil_conv list_all_iff)
  finally show ?thesis .
qed

text \<open>
  Claim C10. When the input text is empty or holds white space only, \<^verbatim>\<open>addQuestion\<close>
  does nothing: it issues no remote call, and the store and the whole state (questions,
  error message, loading flag, input text) are as before.
\<close>

theorem addQuestion_blank_noop:
  "list_all isWhiteSpace (newQuestion st) \<Longrightarrow>
   addQuestion be recruiterId (store, st) = (store, st, [])"
  by (simp add: addQuestion_def trim_Nil_iff)

theorem addQuestion_blank_noop_witness:
  "list_all isWhiteSpace (newQuestion (initialState\<lparr>newQuestion := ''   ''\<rparr>)) \<and>
   addQuestion (sampleBackend ''i1'' ''q1'') ''r1'' (emptyStore, initialState\<lparr>newQuestion := ''   ''\<rparr>) =
     (emptyStore, initialState\<lparr>newQuestion := ''   ''\<rparr>, []) \<and>
   addQuestion (sampleBackend ''i1'' ''q1'') ''r1'' (emptyStore, initialState) =
     (emptyStore, initialState, [])"
proof -
  have a: "list_all isWhiteSpace (newQuestion (initialState\<lparr>newQuestion := ''   ''\<rparr>))"
    by (simp add: isWhiteSpace_def)
  have b: "list_all isWhiteSpace (newQuestion initialState)"
    by (simp add: initialState_def)
  show ?thesis
    using a addQuestion_blank_noop[OF a] addQuestion_blank_noop[OF b] by simp
qed

text \<open>
  Claim C4. For every identifier, \<^verbatim>\<open>deleteQuestion\<close> issues exactly one remote call, the
  delete of that identifier. When the store accepts it, the local list loses exactly the
  questions with that identifier, the others staying in order, and no error is shown; when
  the store answers with an error, the local list (and the store) are unchanged and the
  error message is set. The loading flag is off at the end in both cases.
\<close>

theorem deleteQuestion_removes_by_id:
  "snd (snd (deleteQuestion fault qid (store, st))) = [DeleteQuestion qid] \<and>
   questions (fst (snd (deleteQuestion None qid (store, st)))) =
     filter (\<lambda>q. question_id q \<noteq> qid) (questions st) \<and>
   (q \<in> set (questions (fst (snd (deleteQuestion None qid (store, st))))) \<longleftrightarrow>
      q \<in> set (questions st) \<and> question_id q \<noteq> qid) \<and>
   subseq (questions (fst (snd (deleteQuestion None qid (store, st))))) (questions st) \<and>
   error (fst (snd (deleteQuestion None qid (store, st)))) = None \<and>
   questions (fst (snd (deleteQuestion (Some m) qid (store, st)))) = questions st \<and>
   error (fst (snd (deleteQuestion (Some m) qid (store, st)))) = Some m \<and>
   fst (deleteQuestion (Some m) qid (store, st)) = store \<and>
   loading (fst (snd (deleteQuestion fault qid (store, st)))) = False"
  by (cases fault) (simp_all add: deleteQuestion_def delete_question_def)

lemma addQuestion_first:
  assumes "interviewsOf r store = []" "trim (newQuestion st) \<noteq> []"
    "select_fault be = None" "create_fault be = None" "question_fault be = None"
  shows "addQuestion be r (store, st) =
    (store\<lparr>interview := interview store @
        [\<lparr>interview_row_id = new_interview_id be, recruiter_id = r,
          invite_code = random_invite_code be\<rparr>],
       interview_questions := interview_questions store @
        [\<lparr>question_id = new_question_id be, question = newQuestion st,
          order_index = new_order_index be, interview_id = new_interview_id be\<rparr>]\<rparr>,
     st\<lparr>loading := False, error := None,
        questions := questions st @
          [\<lparr>question_id = new_question_id be, question = newQuestion st,
            order_index = new_order_index be, interview_id = new_interview_id be\<rparr>],
        newQuestion := []\<rparr>,
     [SelectInterview r, InsertInterview r (random_invite_code be),
      InsertQuestion (new_interview_id be) (newQuestion st)])"
  using assms
  by (simp add: addQuestion_def select_interview_def insert_interview_def attachQuestion_def
      insert_question_def interviewsOf_def)

lemma addQuestion_reuse:
  assumes "interviewsOf r store = i # rest" "trim (newQuestion st) \<noteq> []"
    "select_fault be = None" "question_fault be = None"
  shows "addQuestion be r (store, st) =
    (store\<lparr>interview_questions := interview_questions store @
        [\<lparr>question_id = new_question_id be, question = newQuestion st,
          order_index = new_order_index be, interview_id = interview_row_id i\<rparr>]\<rparr>,
     st\<lparr>loading := False, error := None,
        questions := questions st @
          [\<lparr>question_id = new_question_id be, question = newQuestion st,
            order_index = new_order_index be, interview_id = interview_row_id i\<rparr>],
        newQuestion := []\<rparr>,
     [SelectInterview r, InsertQuestion (interview_row_id i) (newQuestion st)])"
  using assms
  by (simp add: addQuestion_def select_interview_def attachQuestion_def
      insert_question_def interviewsOf_def)

lemma attachQuestion_interview:
  "interview (fst (attachQuestion be i store st calls)) = interview store"
  by (simp add: attachQuestion_def insert_question_def split: option.splits)

lemma addQuestion_interview:
  "interview (fst (addQuestion be r (store, st))) = interview store \<or>
   (interviewsOf r store = [] \<and>
    interview (fst (addQuestion be r (store, st))) = interview store @
        [\<lparr>interview_row_id = new_interview_id be, recruiter_id = r,
          invite_code = random_invite_code be\<rparr>])"
  by (cases "interviewsOf r store")
    (auto simp: addQuestion_def select_interview_def insert_interview_def interviewsOf_def
      attachQuestion_interview Let_def split: option.splits)

lemma addQuestions_keeps_interviews:
  "interviewsOf r (fst w) \<noteq> [] \<Longrightarrow> interview (fst (addQuestions r steps w)) = interview (fst w)"
proof (induction steps arbitrary: w)
  case Nil
  then show ?case by simp
next
  case (Cons step steps)
  obtain store' st' calls where a:
    "addQuestion (snd step) r (fst w, (snd w)\<lparr>newQuestion := fst step\<rparr>) = (store', st', calls)"
    by (metis prod_cases3)
  from Cons.prems addQuestion_interview[of "snd step" r "fst w" "(snd w)\<lparr>newQuestion := fst step\<rparr>"] a
  have b: "interview store' = interview (fst w)" by auto
  then have "interviewsOf r store' \<noteq> []" using Cons.prems by (simp add: interviewsOf_def)
  then have "interview (fst (addQuestions r steps (store', st'))) = interview store'"
    using Cons.IH[of "(store', st')"] by simp
  moreover have "fst (addQuestions r (step # steps) w) = fst (addQuestions r steps (store', st'))"
    using a by (simp split: prod.splits)
  ultimately show ?case using b by simp
qed

lemma addQuestions_one_interview:
  "length (interview (fst (addQuestions r steps w))) \<le> length (interview (fst w)) + 1"
proof (induction steps arbitrary: w)
  case Nil
  then show ?case by simp
next
  case (Cons step steps)
  obtain store' st' calls where a:
    "addQuestion (snd step) r (fst w, (snd w)\<lparr>newQuestion := fst step\<rparr>) = (store', st', calls)"
    by (metis prod_cases3)
  have r: "fst (addQuestions r (step # steps) w) = fst (addQuestions r steps (store', st'))"
    using a by (simp split: prod.splits)
  from addQuestion_interview[of "snd step" r "fst w" "(snd w)\<lparr>newQuestion := fst step\<rparr>"] a
  consider "interview store' = interview (fst w)"
    | "interview store' = interview (fst w) @
        [\<lparr>interview_row_id = new_interview_id (snd step), recruiter_id = r,
          invite_code = random_invite_code (snd step)\<rparr>]"
    by auto
  then show ?case
  proof cases
    case 1
    with Cons.IH[of "(store', st')"] r show ?thesis by simp
  next
    case 2
    then have "interviewsOf r (fst (store', st')) \<noteq> []" by (simp add: interviewsOf_def)
    then have "interview (fst (addQuestions r steps (store', st'))) = interview store'"
      using addQuestions_keeps_interviews[of r "(store', st')" steps] by simp
    with 2 r show ?thesis by simp
  qed
qed

lemma addQuestions_interviewsOf_bound:
  "length (interviewsOf r (fst (addQuestions r steps w))) \<le>
     max 1 (length (interviewsOf r (fst w)))"
proof (induction steps arbitrary: w)
  case Nil
  then show ?case by simp
next
  case (Cons step steps)
  obtain store' st' calls where a:
    "addQuestion (snd step) r (fst w, (snd w)\<lparr>newQuestion := fst step\<rparr>) = (store', st', calls)"
    by (metis prod_cases3)
  have r: "fst (addQuestions r (step # steps) w) = fst (addQuestions r steps (store', st'))"
    using a by (simp split: prod.splits)
  have ih: "length (interviewsOf r (fst (addQuestions r steps (store', st')))) \<le>
     max 1 (length (interviewsOf r store'))"
    using Cons.IH[of "(store', st')"] by simp
  from addQuestion_interview[of "snd step" r "fst w" "(snd w)\<lparr>newQuestion := fst step\<rparr>"] a
  consider "interview store' = interview (fst w)"
    | "interviewsOf r (fst w) = []" "interview store' = interview (fst w) @
        [\<lparr>interview_row_id = new_interview_id (snd step), recruiter_id = r,
          invite_code = random_invite_code (snd step)\<rparr>]"
    by auto
  then show ?case
  proof cases
    case 1
    then have "interviewsOf r store' = interviewsOf r (fst w)"
      by (simp add: interviewsOf_def)
    with ih r show ?thesis by simp
  next
    case 2
    then have "length (interviewsOf r store') = 1"
      by (simp add: interviewsOf_def)
    with ih r show ?thesis by simp
  qed
qed

text \<open>
  Claim C3. For a recruiter with no interview in the store, an add that the store accepts
  creates exactly one interview and attaches the new question to it; a second accepted add
  for the same recruiter creates no interview and attaches its question to the same one.
  Whatever the store answers, repeated adds leave the recruiter with at most one interview,
  and add at most one interview to the store.
\<close>

theorem addQuestion_creates_one_interview:
  assumes "interviewsOf r store = []"
    and "trim text1 \<noteq> []" and "trim text2 \<noteq> []"
    and "select_fault be1 = None" and "create_fault be1 = None" and "question_fault be1 = None"
    and "select_fault be2 = None" and "question_fault be2 = None"
    and "addQuestion be1 r (store, st\<lparr>newQuestion := text1\<rparr>) = (store1, st1, calls1)"
    and "addQuestion be2 r (store1, st1\<lparr>newQuestion := text2\<rparr>) = (store2, st2, calls2)"
  shows "interview store1 = interview store @
           [\<lparr>interview_row_id = new_interview_id be1, recruiter_id = r,
             invite_code = random_invite_code be1\<rparr>] \<and>
         interview_questions store1 = interview_questions store @
           [\<lparr>question_id = new_question_id be1, question = text1,
             order_index = new_order_index be1, interview_id = new_interview_id be1\<rparr>] \<and>
         questions st1 = questions st @
           [\<lparr>question_id = new_question_id be1, question = text1,
             order_index = new_order_index be1, interview_id = new_interview_id be1\<rparr>] \<and>
         calls1 = [SelectInterview r, InsertInterview r (random_invite_code be1),
                   InsertQuestion (new_interview_id be1) text1] \<and>
         interview store2 = interview store1 \<and>
         interview_questions store2 = interview_questions store1 @
           [\<lparr>question_id = new_question_id be2, question = text2,
             order_index = new_order_index be2, interview_id = new_interview_id be1\<rparr>] \<and>
         questions st2 = questions st1 @
           [\<lparr>question_id = new_question_id be2, question = text2,
             order_index = new_order_index be2, interview_id = new_interview_id be1\<rparr>] \<and>
         calls2 = [SelectInterview r, InsertQuestion (new_interview_id be1) text2] \<and>
         (\<forall>steps st'. length (interviewsOf r (fst (addQuestions r steps (store, st')))) \<le> 1) \<and>
         (\<forall>steps w. length (interview (fst (addQuestions r steps w))) \<le>
            length (interview (fst w)) + 1)"
proof -
  let ?row = "\<lparr>interview_row_id = new_interview_id be1, recruiter_id = r,
             invite_code = random_invite_code be1\<rparr>"
  have first: "addQuestion be1 r (store, st\<lparr>newQuestion := text1\<rparr>) =
    (store\<lparr>interview := interview store @ [?row],
       interview_questions := interview_questions store @
        [\<lparr>question_id = new_question_id be1, question = text1,
          order_index = new_order_index be1, interview_id = new_interview_id be1\<rparr>]\<rparr>,
     st\<lparr>newQuestion := text1, loading := False, error := None,
        questions := questions st @
          [\<lparr>question_id = new_question_id be1, question = text1,
            order_index = new_order_index be1, interview_id = new_interview_id be1\<rparr>],
        newQuestion := []\<rparr>,
     [SelectInterview r, InsertInterview r (random_invite_code be1),
      InsertQuestion (new_interview_id be1) text1])"
    using assms(1,2,4,5,6) addQuestion_first[of r store "st\<lparr>newQuestion := text1\<rparr>" be1]
    by simp
  with assms(9) have s1: "store1 = store\<lparr>interview := interview store @ [?row],
       interview_questions := interview_questions store @
        [\<lparr>question_id = new_question_id be1, question = text1,
          order_index = new_order_index be1, interview_id = new_interview_id be1\<rparr>]\<rparr>"
    and q1: "questions st1 = questions st @
           [\<lparr>question_id = new_question_id be1, question = text1,
             order_index = new_order_index be1, interview_id = new_interview_id be1\<rparr>]"
    and c1: "calls1 = [SelectInterview r, InsertInterview r (random_invite_code be1),
                   InsertQuestion (new_interview_id be1) text1]"
    by auto
  have of1: "interviewsOf r store1 = [?row]"
    using assms(1) by (simp add: s1 interviewsOf_def)
  have second: "addQuestion be2 r (store1, st1\<lparr>newQuestion := text2\<rparr>) =
    (store1\<lparr>interview_questions := interview_questions store1 @
        [\<lparr>question_id = new_question_id be2, question = text2,
          order_index = new_order_index be2, interview_id = new_interview_id be1\<rparr>]\<rparr>,
     st1\<lparr>newQuestion := text2, loading := False, error := None,
        questions := questions st1 @
          [\<lparr>question_id = new_question_id be2, question = text2,
            order_index = new_order_index be2, interview_id = new_interview_id be1\<rparr>],
        newQuestion := []\<rparr>,
     [SelectInterview r, InsertQuestion (new_interview_id be1) text2])"
    using assms(3,7,8) of1
      addQuestion_reuse[of r store1 ?row "[]" "st1\<lparr>newQuestion := text2\<rparr>" be2]
    by simp
  with assms(10) have s2: "store2 = store1\<lparr>interview_questions := interview_questions store1 @
        [\<lparr>question_id = new_question_id be2, question = text2,
          order_index = new_order_index be2, interview_id = new_interview_id be1\<rparr>]\<rparr>"
    and q2: "questions st2 = questions st1 @
          [\<lparr>question_id = new_question_id be2, question = text2,
            order_index = new_order_index be2, interview_id = new_interview_id be1\<rparr>]"
    and c2: "calls2 = [SelectInterview r, InsertQuestion (new_interview_id be1) text2]"
    by auto
  have bound: "length (interview (fst (addQuestions r steps w))) \<le> length (interview (fst w)) + 1"
    for steps w
    by (rule addQuestions_one_interview)
  have zero: "length (interviewsOf r (fst (addQuestions r steps (store, st')))) \<le> 1" for steps st'
    using addQuestions_interviewsOf_bound[of r steps "(store, st')"] assms(1) by simp
  show ?thesis
    using s1 q1 c1 s2 q2 c2 zero bound by simp
qed

text \<open>Two adds on an empty store.\<close>

theorem addQuestion_creates_one_interview_witness:
  "interview (fst (addQuestion (sampleBackend ''i1'' ''q1'') ''r1''
       (emptyStore, initialState\<lparr>newQuestion := ''Why this role?''\<rparr>))) =
     [\<lparr>interview_row_id = ''i1'', recruiter_id = ''r1'', invite_code = 123456789\<rparr>] \<and>
   interview_questions (fst (addQuestion (sampleBackend ''i1'' ''q1'') ''r1''
       (emptyStore, initialState\<lparr>newQuestion := ''Why this role?''\<rparr>))) =
     [\<lparr>question_id = ''q1'', question = ''Why this role?'', order_index = 0,
       interview_id = ''i1''\<rparr>] \<and>
   snd (snd (addQuestion (sampleBackend ''i1'' ''q1'') ''r1''
       (emptyStore, initialState\<lparr>newQuestion := ''Why this role?''\<rparr>))) =
     [SelectInterview ''r1'', InsertInterview ''r1'' 123456789,
      InsertQuestion ''i1'' ''Why this role?''] \<and>
   interview (fst (addQuestion (sampleBackend ''i2'' ''q2'') ''r1''
     (fst (addQuestion (sampleBackend ''i1'' ''q1'') ''r1''
        (emptyStore, initialState\<lparr>newQuestion := ''Why this role?''\<rparr>)),
      (fst (snd (addQuestion (sampleBackend ''i1'' ''q1'') ''r1''
        (emptyStore, initialState\<lparr>newQuestion := ''Why this role?''\<rparr>))))
        \<lparr>newQuestion := ''Tell us about a project.''\<rparr>))) =
     [\<lparr>interview_row_id = ''i1'', recruiter_id = ''r1'', invite_code = 123456789\<rparr>] \<and>
   interview_questions (fst (addQuestion (sampleBackend ''i2'' ''q2'') ''r1''
     (fst (addQuestion (sampleBackend ''i1'' ''q1'') ''r1''
        (emptyStore, initialState\<lparr>newQuestion := ''Why this role?''\<rparr>)),
      (fst (snd (addQuestion (sampleBackend ''i1'' ''q1'') ''r1''
        (emptyStore, initialState\<lparr>newQuestion := ''Why this role?''\<rparr>))))
        \<lparr>newQuestion := ''Tell us about a project.''\<rparr>))) =
     [\<lparr>question_id = ''q1'', question = ''Why this role?'', order_index = 0,
       interview_id = ''i1''\<rparr>,
      \<lparr>question_id = ''q2'', question = ''Tell us about a project.'', order_index = 0,
       interview_id = ''i1''\<rparr>] \<and>
   snd (snd (addQuestion (sampleBackend ''i2'' ''q2'') ''r1''
     (fst (addQuestion (sampleBackend ''i1'' ''q1'') ''r1''
        (emptyStore, initialState\<lparr>newQuestion := ''Why this role?''\<rparr>)),
      (fst (snd (addQuestion (sampleBackend ''i1'' ''q1'') ''r1''
        (emptyStore, initialState\<lparr>newQuestion := ''Why this role?''\<rparr>))))
        \<lparr>newQuestion := ''Tell us about a project.''\<rparr>))) =
     [SelectInterview ''r1'', InsertQuestion ''i1'' ''Tell us about a project.'']"
proof -
  let ?be1 = "sampleBackend ''i1'' ''q1''" and ?be2 = "sampleBackend ''i2'' ''q2''"
  let ?w1 = "addQuestion ?be1 ''r1'' (emptyStore, initialState\<lparr>newQuestion := ''Why this role?''\<rparr>)"
  let ?w2 = "addQuestion ?be2 ''r1''
     (fst ?w1, (fst (snd ?w1))\<lparr>newQuestion := ''Tell us about a project.''\<rparr>)"
  have h1: "interviewsOf ''r1'' emptyStore = []"
    by (simp add: interviewsOf_def emptyStore_def)
  have h2: "trim ''Why this role?'' \<noteq> []" "trim ''Tell us about a project.'' \<noteq> []"
    by (simp_all add: trim_Nil_iff isWhiteSpace_def)
  have h3: "select_fault ?be1 = None" "create_fault ?be1 = None" "question_fault ?be1 = None"
    "select_fault ?be2 = None" "question_fault ?be2 = None"
    by (simp_all add: sampleBackend_def)
  have e1: "?w1 = (fst ?w1, fst (snd ?w1), snd (snd ?w1))" by simp
  have e2: "?w2 = (fst ?w2, fst (snd ?w2), snd (snd ?w2))" by simp
  note t = addQuestion_creates_one_interview[OF h1 h2 h3 e1 e2]
  have c: "new_interview_id ?be1 = ''i1''" "random_invite_code ?be1 = 123456789"
    "new_question_id ?be1 = ''q1''" "new_order_index ?be1 = 0"
    "new_question_id ?be2 = ''q2''" "new_order_index ?be2 = 0"
    "interview emptyStore = []" "interview_questions emptyStore = []"
    by (simp_all add: sampleBackend_def emptyStore_def)
  from t have a: "interview (fst ?w1) = interview emptyStore @
           [\<lparr>interview_row_id = new_interview_id ?be1, recruiter_id = ''r1'',
             invite_code = random_invite_code ?be1\<rparr>]"
    and b: "interview_questions (fst ?w1) = interview_questions emptyStore @
           [\<lparr>question_id = new_question_id ?be1, question = ''Why this role?'',
             order_index = new_order_index ?be1, interview_id = new_interview_id ?be1\<rparr>]"
    and d: "snd (snd ?w1) = [SelectInterview ''r1'', InsertInterview ''r1'' (random_invite_code ?be1),
                   InsertQuestion (new_interview_id ?be1) ''Why this role?'']"
    and e: "interview (fst ?w2) = interview (fst ?w1)"
    and f: "interview_questions (fst ?w2) = interview_questions (fst ?w1) @
           [\<lparr>question_id = new_question_id ?be2, question = ''Tell us about a project.'',
             order_index = new_order_index ?be2, interview_id = new_interview_id ?be1\<rparr>]"
    and g: "snd (snd ?w2) = [SelectInterview ''r1'',
          InsertQuestion (new_interview_id ?be1) ''Tell us about a project.'']"
    by blast+
  show ?thesis
    unfolding a b d e f g c by simp
qed

end
